theory Spec2Isabelle
  imports Complex_Main "HOL-Library.List_Lexorder" "HOL-Library.Char_ord"
begin

section \<open>The vectorizer of textacy/vsm.py\<close>

text \<open>
  A shallow embedding of \<^verbatim>\<open>textacy/vsm.py\<close>: the class \<^verbatim>\<open>Vectorizer\<close> and the module
  functions \<^verbatim>\<open>apply_idf_weighting\<close>, \<^verbatim>\<open>get_term_freqs\<close>, \<^verbatim>\<open>get_doc_freqs\<close>,
  \<^verbatim>\<open>get_information_content\<close>, \<^verbatim>\<open>filter_terms_by_df\<close> and \<^verbatim>\<open>filter_terms_by_ic\<close>.

  Conventions. A Python \<^verbatim>\<open>dict\<close> is an association list in insertion order whose keys
  are distinct. Strings are compared and sorted as lists of characters, character by
  character. Every \<^verbatim>\<open>raise\<close> is a value \<open>Inl e\<close>; the constructor of \<open>e\<close> names the
  place that raises. Floating point numbers are idealised as real numbers. The numpy,
  scipy and sklearn operations the module calls are not part of the module; each is
  modelled by a small function on the three arrays of the compressed sparse row format.
\<close>

subsection \<open>Errors\<close>

text \<open>
  All constructors but the last three stand for a \<^verbatim>\<open>ValueError\<close>, one per \<^verbatim>\<open>raise\<close>
  statement of the module, in the order of the source.
\<close>

datatype error =
    InitNegativeDf
  | InitMinIcOutOfRange
  | InitNegativeMaxNTerms
  | DuplicateTerm string
  | DuplicateTermIds nat
  | MissingTermId nat nat
  | EmptyVocabularyArg
  | VocabularyNotBuilt
  | VocabularyEmpty
  | NoNonzeroEntries
  | NegativeFilterArg
  | MaxDfLessThanMinDf
  | NoTermsRemainDf
  | MinIcOutOfRange
  | NegativeMaxNTerms
  | NoTermsRemainIc
  | IndexError
  | TypeError
  | AttributeError

text \<open>The errors of \<^verbatim>\<open>_validate_vocabulary\<close> (the specification's InvalidVocabulary).\<close>

fun invalid_vocabulary :: "error \<Rightarrow> bool" where
  "invalid_vocabulary (DuplicateTerm t) = True"
| "invalid_vocabulary (DuplicateTermIds n) = True"
| "invalid_vocabulary (MissingTermId i n) = True"
| "invalid_vocabulary EmptyVocabularyArg = True"
| "invalid_vocabulary e = False"

subsection \<open>Numbers that are an int or a float\<close>

datatype num = IntV int | FloatV real

fun num_val :: "num \<Rightarrow> real" where
  "num_val (IntV i) = of_int i"
| "num_val (FloatV r) = r"

text \<open>Python's \<^verbatim>\<open>x == c\<close> compares an int and a float by value: \<^verbatim>\<open>1 == 1.0\<close> holds.\<close>

definition num_eq :: "num \<Rightarrow> real \<Rightarrow> bool" where
  "num_eq x c = (num_val x = c)"

text \<open>\<^verbatim>\<open>int(x)\<close> of a float truncates towards zero.\<close>

definition py_int :: "real \<Rightarrow> int" where
  "py_int x = (if 0 \<le> x then \<lfloor>x\<rfloor> else \<lceil>x\<rceil>)"

text \<open>\<^verbatim>\<open>x if isinstance(x, int) else int(x * n_docs)\<close>\<close>

fun doc_count :: "num \<Rightarrow> nat \<Rightarrow> int" where
  "doc_count (IntV i) n_docs = i"
| "doc_count (FloatV r) n_docs = py_int (r * real n_docs)"

subsection \<open>Dictionaries\<close>

type_synonym vocab = "(string \<times> nat) list"

text \<open>\<^verbatim>\<open>d[k] = v\<close>: an existing key keeps its place, a new key goes last.\<close>

fun dict_set :: "('k \<times> 'v) list \<Rightarrow> 'k \<Rightarrow> 'v \<Rightarrow> ('k \<times> 'v) list" where
  "dict_set [] k v = [(k, v)]"
| "dict_set ((k', v') # d) k v = (if k' = k then (k, v) # d else (k', v') # dict_set d k v)"

text \<open>\<^verbatim>\<open>term_counter[term_idx] += 1\<close> on a \<^verbatim>\<open>defaultdict(int)\<close>.\<close>

definition counter_incr :: "(nat \<times> int) list \<Rightarrow> nat \<Rightarrow> (nat \<times> int) list" where
  "counter_incr term_counter term_idx =
     dict_set term_counter term_idx
       ((case map_of term_counter term_idx of None \<Rightarrow> 0 | Some c \<Rightarrow> c) + 1)"

subsection \<open>Compressed sparse row matrices\<close>

text \<open>
  The three arrays and the shape of a \<^verbatim>\<open>scipy.sparse.csr_matrix\<close>: row \<open>i\<close> holds the
  entries \<open>indptr ! i \<le> k < indptr ! (i + 1)\<close>, entry \<open>k\<close> has the column \<open>indices ! k\<close>
  and the value \<open>data ! k\<close>.
\<close>

record 'a csr_matrix =
  data :: "'a list"
  indices :: "nat list"
  indptr :: "nat list"
  shape :: "nat \<times> nat"

definition slice :: "'b list \<Rightarrow> nat \<Rightarrow> nat \<Rightarrow> 'b list" where
  "slice xs a b = take (b - a) (drop a xs)"

definition n_rows :: "'a csr_matrix \<Rightarrow> nat" where
  "n_rows m = fst (shape m)"

definition n_cols :: "'a csr_matrix \<Rightarrow> nat" where
  "n_cols m = snd (shape m)"

text \<open>The stored entries of row \<open>i\<close> as (column, value) pairs.\<close>

definition csr_row :: "'a csr_matrix \<Rightarrow> nat \<Rightarrow> (nat \<times> 'a) list" where
  "csr_row m i =
     zip (slice (indices m) (indptr m ! i) (indptr m ! Suc i))
         (slice (data m) (indptr m ! i) (indptr m ! Suc i))"

definition csr_rows :: "'a csr_matrix \<Rightarrow> (nat \<times> 'a) list list" where
  "csr_rows m = map (csr_row m) [0..<n_rows m]"



text \<open>\<^verbatim>\<open>m.nnz\<close>: the number of stored entries, read off the last row pointer.\<close>

definition nnz :: "'a csr_matrix \<Rightarrow> nat" where
  "nnz m = last (indptr m)"


text \<open>\<^verbatim>\<open>m.sort_indices()\<close>: within every row the entries are sorted by column.\<close>

definition sort_indices :: "'a csr_matrix \<Rightarrow> 'a csr_matrix" where
  "sort_indices m =
     m\<lparr>indices := concat (map (\<lambda>row. map fst (sort_key fst row)) (csr_rows m)),
       data := concat (map (\<lambda>row. map snd (sort_key fst row)) (csr_rows m))\<rparr>"

text \<open>\<^verbatim>\<open>m.astype(np.float64)\<close>\<close>

definition astype_float :: "int csr_matrix \<Rightarrow> real csr_matrix" where
  "astype_float m =
     \<lparr>data = map real_of_int (data m), indices = indices m, indptr = indptr m, shape = shape m\<rparr>"

text \<open>
  \<^verbatim>\<open>m[:, kept_indices]\<close> for an ascending list of distinct columns, as \<^verbatim>\<open>np.where\<close>
  returns it: the entries of the other columns go, a kept column gets its position in
  \<open>kept_indices\<close> as its new index.
\<close>

definition index_of :: "nat list \<Rightarrow> nat \<Rightarrow> nat" where
  "index_of xs x = length (takeWhile (\<lambda>y. y \<noteq> x) xs)"

definition col_slice :: "'a csr_matrix \<Rightarrow> nat list \<Rightarrow> 'a csr_matrix" where
  "col_slice m kept_indices =
     (let pairs = filter (\<lambda>jv. fst jv \<in> set kept_indices) (zip (indices m) (data m))
      in \<lparr>data = map snd pairs,
          indices = map (\<lambda>jv. index_of kept_indices (fst jv)) pairs,
          indptr = map (\<lambda>p. length (filter (\<lambda>j. j \<in> set kept_indices) (take p (indices m))))
                     (indptr m),
          shape = (n_rows m, length kept_indices)\<rparr>)"

subsection \<open>numpy on lists\<close>

text \<open>\<^verbatim>\<open>np.bincount(xs, minlength=n)\<close>: one count per value below \<open>max n (max xs + 1)\<close>.\<close>

definition bincount :: "nat list \<Rightarrow> nat \<Rightarrow> nat list" where
  "bincount xs minlength = map (count_list xs) [0..<fold max (map Suc xs) minlength]"

text \<open>\<^verbatim>\<open>np.where(mask)[0]\<close>\<close>

definition np_where :: "bool list \<Rightarrow> nat list" where
  "np_where msk = filter (\<lambda>j. msk ! j) [0..<length msk]"

text \<open>\<^verbatim>\<open>xs[mask]\<close>\<close>

definition mask_select :: "'b list \<Rightarrow> bool list \<Rightarrow> 'b list" where
  "mask_select xs msk = map fst (filter snd (zip xs msk))"

text \<open>\<^verbatim>\<open>mask.sum()\<close>\<close>

definition mask_sum :: "bool list \<Rightarrow> nat" where
  "mask_sum msk = length (filter id msk)"

text \<open>\<^verbatim>\<open>np.cumsum(mask) - 1\<close>\<close>

definition cumsum_minus_1 :: "bool list \<Rightarrow> int list" where
  "cumsum_minus_1 msk = map (\<lambda>j. int (mask_sum (take (Suc j) msk)) - 1) [0..<length msk]"

text \<open>
  \<^verbatim>\<open>xs.argsort()\<close>: the positions of \<open>xs\<close> in ascending order of their values. numpy
  leaves the order of equal values open for its default sort; the model takes the
  stable order (equal values by ascending position), which is what numpy's insertion
  sort gives on short arrays.
\<close>

definition argsort :: "('b::linorder) list \<Rightarrow> nat list" where
  "argsort xs = sort_key (\<lambda>p. xs ! p) [0..<length xs]"

subsection \<open>The vocabulary and its validation\<close>

text \<open>
  What the caller may pass as \<^verbatim>\<open>vocabulary_terms\<close>: a mapping of terms to ids, or an
  iterable of terms. The ids of a mapping are the caller's integers.
\<close>

datatype vocab_input = VMapping "(string \<times> int) list" | VIterable "string list"

text \<open>
  The loop of \<^verbatim>\<open>_validate_vocabulary\<close> over \<^verbatim>\<open>enumerate(sorted(vocabulary))\<close>:
  \<^verbatim>\<open>vocab.setdefault(term, i)\<close> returns the id the term already has, or stores \<open>i\<close>.
\<close>

fun validate_terms :: "vocab \<Rightarrow> nat \<Rightarrow> string list \<Rightarrow> error + vocab" where
  "validate_terms vocab i [] = Inr vocab"
| "validate_terms vocab i (t # ts) =
     (case map_of vocab t of
        Some j \<Rightarrow> (if j \<noteq> i then Inl (DuplicateTerm t) else validate_terms vocab (Suc i) ts)
      | None \<Rightarrow> validate_terms (vocab @ [(t, i)]) (Suc i) ts)"

text \<open>
  \<^verbatim>\<open>n_dupe_term_ids\<close>: the number of ids that more than one term has.
\<close>

definition n_dupe_term_ids :: "int list \<Rightarrow> nat" where
  "n_dupe_term_ids ids = length (filter (\<lambda>i. 1 < count_list ids i) (remdups ids))"

text \<open>
  \<^verbatim>\<open>_validate_vocabulary\<close> returns the vocabulary and \<^verbatim>\<open>is_fixed\<close>. A mapping that
  passes has the ids \<open>0, ..., n - 1\<close>, which the result keeps as natural numbers.
\<close>

definition validate_vocabulary :: "vocab_input option \<Rightarrow> error + (vocab option \<times> bool)" where
  "validate_vocabulary vocabulary =
     (case vocabulary of
        None \<Rightarrow> Inr (None, False)
      | Some (VIterable terms) \<Rightarrow>
          (case validate_terms [] 0 (sort terms) of
             Inl e \<Rightarrow> Inl e
           | Inr vocab \<Rightarrow> if vocab = [] then Inl EmptyVocabularyArg else Inr (Some vocab, True))
      | Some (VMapping items) \<Rightarrow>
          (let ids = remdups (map snd items) in
           if length ids \<noteq> length items then Inl (DuplicateTermIds (n_dupe_term_ids (map snd items)))
           else (case find (\<lambda>i. int i \<notin> set ids) [0..<length items] of
                   Some i \<Rightarrow> Inl (MissingTermId i (length items))
                 | None \<Rightarrow>
                     if items = [] then Inl EmptyVocabularyArg
                     else Inr (Some (map (\<lambda>ti. (fst ti, nat (snd ti))) items), True))))"

subsection \<open>The vectorizer\<close>

text \<open>
  The attributes of a \<^verbatim>\<open>Vectorizer\<close>; \<open>normalize_flag\<close> is \<^verbatim>\<open>normalize\<close>,
  \<open>fixed_terms\<close> is \<^verbatim>\<open>_fixed_terms\<close> and \<open>id_to_term_cache\<close> is \<^verbatim>\<open>id_to_term_\<close>.
\<close>

record vectorizer =
  weighting :: string
  normalize_flag :: bool
  sublinear_tf :: bool
  smooth_idf :: bool
  min_df :: num
  max_df :: num
  min_ic :: real
  max_n_terms :: "int option"
  vocabulary_terms :: "vocab option"
  fixed_terms :: bool
  id_to_term_cache :: "(nat \<times> string) list"

text \<open>\<^verbatim>\<open>Vectorizer.__init__\<close>\<close>

definition init ::
  "string \<Rightarrow> bool \<Rightarrow> bool \<Rightarrow> bool \<Rightarrow> num \<Rightarrow> num \<Rightarrow> real \<Rightarrow> int option \<Rightarrow> vocab_input option
     \<Rightarrow> error + vectorizer" where
  "init w nrm sub smooth mindf maxdf minic maxn vocabulary =
     (if num_val mindf < 0 \<or> num_val maxdf < 0 then Inl InitNegativeDf
      else if minic < 0 \<or> 1 < minic then Inl InitMinIcOutOfRange
      else if (case maxn of None \<Rightarrow> False | Some k \<Rightarrow> k \<noteq> 0 \<and> k < 0) then Inl InitNegativeMaxNTerms
      else (case validate_vocabulary vocabulary of
              Inl e \<Rightarrow> Inl e
            | Inr (v, is_fixed) \<Rightarrow>
                Inr \<lparr>weighting = w, normalize_flag = nrm, sublinear_tf = sub, smooth_idf = smooth,
                     min_df = mindf, max_df = maxdf, min_ic = minic, max_n_terms = maxn,
                     vocabulary_terms = v, fixed_terms = is_fixed, id_to_term_cache = []\<rparr>))"



subsection \<open>The inverse mapping\<close>

text \<open>
  The values \<^verbatim>\<open>id_to_term\<close> compares with \<^verbatim>\<open>!=\<close>: an int on the left, the attribute
  \<^verbatim>\<open>vocabulary_terms\<close> (a dict or \<^verbatim>\<open>None\<close>) on the right. In Python values of different
  types are unequal; two dicts are equal when they hold the same items.
\<close>

datatype pyobj = PyInt int | PyDict vocab | PyNone

fun py_ne :: "pyobj \<Rightarrow> pyobj \<Rightarrow> bool" where
  "py_ne (PyInt a) (PyInt b) = (a \<noteq> b)"
| "py_ne (PyDict a) (PyDict b) = (set a \<noteq> set b)"
| "py_ne PyNone PyNone = False"
| "py_ne x y = True"

text \<open>\<^verbatim>\<open>{term_id: term_str for term_str, term_id in vocabulary.items()}\<close>\<close>

definition invert :: "vocab \<Rightarrow> (nat \<times> string) list" where
  "invert v = fold (\<lambda>ti d. dict_set d (snd ti) (fst ti)) v []"

text \<open>
  The property \<^verbatim>\<open>id_to_term\<close>: the value read and the instance after the read.
  \<^verbatim>\<open>None.items()\<close> raises an \<^verbatim>\<open>AttributeError\<close>.
\<close>

definition id_to_term :: "vectorizer \<Rightarrow> (error + (nat \<times> string) list) \<times> vectorizer" where
  "id_to_term self =
     (if py_ne (PyInt (int (length (id_to_term_cache self))))
               (case vocabulary_terms self of None \<Rightarrow> PyNone | Some v \<Rightarrow> PyDict v)
      then (case vocabulary_terms self of
              None \<Rightarrow> (Inl AttributeError, self)
            | Some v \<Rightarrow> (Inr (invert v), self\<lparr>id_to_term_cache := invert v\<rparr>))
      else (Inr (id_to_term_cache self), self))"

subsection \<open>Counting terms\<close>

text \<open>
  \<^verbatim>\<open>vocabulary[term]\<close>. With an open vocabulary (\<open>fixed_vocab = False\<close>) the dict is a
  \<^verbatim>\<open>defaultdict\<close> whose factory is its own \<^verbatim>\<open>__len__\<close>: a missing term is stored with
  the current size as its id. With a fixed vocabulary a missing term is a
  \<^verbatim>\<open>KeyError\<close>, here \<open>None\<close>.
\<close>

definition vocabulary_getitem :: "bool \<Rightarrow> vocab \<Rightarrow> string \<Rightarrow> vocab \<times> nat option" where
  "vocabulary_getitem fixed_vocab vocabulary t =
     (case map_of vocabulary t of
        Some term_idx \<Rightarrow> (vocabulary, Some term_idx)
      | None \<Rightarrow>
          if fixed_vocab then (vocabulary, None)
          else (vocabulary @ [(t, length vocabulary)], Some (length vocabulary)))"

text \<open>The inner loop of \<^verbatim>\<open>_count_terms\<close>, over the terms of one document.\<close>

fun count_doc :: "bool \<Rightarrow> vocab \<Rightarrow> (nat \<times> int) list \<Rightarrow> string list \<Rightarrow> vocab \<times> (nat \<times> int) list" where
  "count_doc fixed_vocab vocabulary term_counter [] = (vocabulary, term_counter)"
| "count_doc fixed_vocab vocabulary term_counter (t # ts) =
     (case vocabulary_getitem fixed_vocab vocabulary t of
        (vocabulary', Some term_idx) \<Rightarrow>
          count_doc fixed_vocab vocabulary' (counter_incr term_counter term_idx) ts
      | (vocabulary', None) \<Rightarrow> count_doc fixed_vocab vocabulary' term_counter ts)"

text \<open>The outer loop, over the documents, with the three arrays it extends.\<close>

fun count_docs ::
  "bool \<Rightarrow> vocab \<Rightarrow> int list \<Rightarrow> nat list \<Rightarrow> nat list \<Rightarrow> string list list
     \<Rightarrow> vocab \<times> int list \<times> nat list \<times> nat list" where
  "count_docs fixed_vocab vocabulary dat inds ptrs [] = (vocabulary, dat, inds, ptrs)"
| "count_docs fixed_vocab vocabulary dat inds ptrs (terms # docs) =
     (case count_doc fixed_vocab vocabulary [] terms of
        (vocabulary', term_counter) \<Rightarrow>
          count_docs fixed_vocab vocabulary'
            (dat @ map snd term_counter)
            (inds @ map fst term_counter)
            (ptrs @ [length (inds @ map fst term_counter)])
            docs)"

text \<open>
  \<^verbatim>\<open>_count_terms\<close>. With \<open>fixed_vocab\<close> the vocabulary is the attribute, and
  subscripting \<^verbatim>\<open>None\<close> is a \<^verbatim>\<open>TypeError\<close>.
\<close>

definition count_terms ::
  "vectorizer \<Rightarrow> string list list \<Rightarrow> bool \<Rightarrow> error + (int csr_matrix \<times> vocab)" where
  "count_terms self tokenized_docs fixed_vocab =
     (case (if \<not> fixed_vocab then Some [] else vocabulary_terms self) of
        None \<Rightarrow> Inl TypeError
      | Some vocabulary0 \<Rightarrow>
          (case count_docs fixed_vocab vocabulary0 [] [] [0] tokenized_docs of
             (vocabulary, dat, inds, ptrs) \<Rightarrow>
               Inr (sort_indices
                      \<lparr>data = dat, indices = inds, indptr = ptrs,
                       shape = (length ptrs - 1, length vocabulary)\<rparr>,
                    vocabulary)))"

subsection \<open>Frequencies\<close>

text \<open>
  \<^verbatim>\<open>get_doc_freqs(m, normalized=False)\<close>: the number of stored entries per column.
\<close>

definition get_doc_freqs :: "'a csr_matrix \<Rightarrow> error + nat list" where
  "get_doc_freqs m =
     (if nnz m = 0 then Inl NoNonzeroEntries
      else Inr (bincount (indices m) (n_cols m)))"

text \<open>\<^verbatim>\<open>get_doc_freqs(m, normalized=True)\<close>: the counts divided by the number of rows.\<close>

definition get_doc_freqs_normalized :: "'a csr_matrix \<Rightarrow> error + real list" where
  "get_doc_freqs_normalized m =
     (if nnz m = 0 then Inl NoNonzeroEntries
      else Inr (map (\<lambda>df. real df / real (n_rows m)) (bincount (indices m) (n_cols m))))"

text \<open>\<^verbatim>\<open>m.sum(axis=0)\<close>: the sum of the stored values per column.\<close>

definition column_sums :: "int csr_matrix \<Rightarrow> int list" where
  "column_sums m =
     map (\<lambda>j. sum_list (map snd (filter (\<lambda>cv. fst cv = j) (zip (indices m) (data m)))))
       [0..<n_cols m]"

text \<open>\<^verbatim>\<open>get_term_freqs(m, normalized=False)\<close>\<close>

definition get_term_freqs :: "int csr_matrix \<Rightarrow> error + int list" where
  "get_term_freqs m =
     (if nnz m = 0 then Inl NoNonzeroEntries else Inr (column_sums m))"

text \<open>
  \<^verbatim>\<open>get_term_freqs(m, normalized=True)\<close>: the sums divided by the number of columns, as
  the source does.
\<close>

definition get_term_freqs_normalized :: "int csr_matrix \<Rightarrow> error + real list" where
  "get_term_freqs_normalized m =
     (if nnz m = 0 then Inl NoNonzeroEntries
      else Inr (map (\<lambda>tf. real_of_int tf / real (n_cols m)) (column_sums m)))"

text \<open>
  One value of \<^verbatim>\<open>-dfs * np.log2(dfs) - (1 - dfs) * np.log2(1 - dfs)\<close> after
  \<^verbatim>\<open>ics[np.isnan(ics)] = 0.0\<close>: numpy's result is NaN when \<open>df\<close> is 0 or 1 (a product of 0
  and an infinity) or beyond 1 (the logarithm of a negative number).
\<close>

definition information_content :: "real \<Rightarrow> real" where
  "information_content df =
     (if df \<le> 0 \<or> 1 \<le> df then 0 else - df * log 2 df - (1 - df) * log 2 (1 - df))"

text \<open>\<^verbatim>\<open>get_information_content\<close>\<close>

definition get_information_content :: "'a csr_matrix \<Rightarrow> error + real list" where
  "get_information_content m =
     (case get_doc_freqs_normalized m of
        Inl e \<Rightarrow> Inl e
      | Inr dfs \<Rightarrow> Inr (map information_content dfs))"

subsection \<open>Filtering terms\<close>

text \<open>
  The mask of \<^verbatim>\<open>filter_terms_by_df\<close> from the document frequencies:
  \<^verbatim>\<open>mask = np.ones(n_terms)\<close>, then \<^verbatim>\<open>mask &= dfs <= max_doc_count\<close> if
  \<^verbatim>\<open>max_doc_count < n_docs\<close>, then \<^verbatim>\<open>mask &= dfs >= min_doc_count\<close> if
  \<^verbatim>\<open>min_doc_count > 1\<close>.
\<close>

definition df_mask :: "nat \<Rightarrow> nat \<Rightarrow> nat list \<Rightarrow> int \<Rightarrow> int \<Rightarrow> bool list" where
  "df_mask n_docs n_terms dfs max_doc_count min_doc_count =
     (let msk0 = replicate n_terms True;
          msk1 = (if max_doc_count < int n_docs
                  then map2 (\<and>) msk0 (map (\<lambda>df. int df \<le> max_doc_count) dfs) else msk0);
          msk2 = (if 1 < min_doc_count
                  then map2 (\<and>) msk1 (map (\<lambda>df. min_doc_count \<le> int df) dfs) else msk1)
      in msk2)"

text \<open>
  The selection of the top terms, shared by both filters, for scores \<open>xs\<close> (term
  frequencies or information contents):
  \<^verbatim>\<open>top_mask_inds = (xs[mask]).argsort()[::-1][:max_n_terms]\<close>,
  \<^verbatim>\<open>new_mask = np.zeros(n_terms)\<close>, \<^verbatim>\<open>new_mask[np.where(mask)[0][top_mask_inds]] = True\<close>.
\<close>

definition top_mask :: "('b::linorder) list \<Rightarrow> bool list \<Rightarrow> nat \<Rightarrow> nat \<Rightarrow> bool list" where
  "top_mask xs msk k n_terms =
     (let top_mask_inds = take k (rev (argsort (mask_select xs msk)));
          chosen = map (\<lambda>p. np_where msk ! p) top_mask_inds
      in map (\<lambda>j. j \<in> set chosen) [0..<n_terms])"

text \<open>
  The renumbering of the vocabulary, shared by both filters:
  \<^verbatim>\<open>{term: new_indices[old_index] for term, old_index in term_to_id.items()
    if mask[old_index]}\<close>. An id beyond the mask is an \<^verbatim>\<open>IndexError\<close>.
\<close>

definition renumber :: "vocab \<Rightarrow> bool list \<Rightarrow> error + vocab" where
  "renumber term_to_id msk =
     (let new_indices = cumsum_minus_1 msk
      in if list_ex (\<lambda>ti. length msk \<le> snd ti) term_to_id then Inl IndexError
         else Inr (map (\<lambda>ti. (fst ti, nat (new_indices ! snd ti)))
                     (filter (\<lambda>ti. msk ! snd ti) term_to_id)))"

text \<open>\<^verbatim>\<open>filter_terms_by_df\<close>\<close>

definition filter_terms_by_df ::
  "int csr_matrix \<Rightarrow> vocab \<Rightarrow> num \<Rightarrow> num \<Rightarrow> int option \<Rightarrow> error + (int csr_matrix \<times> vocab)" where
  "filter_terms_by_df doc_term_matrix term_to_id maxdf mindf maxn =
     (if num_eq maxdf 1 \<and> num_eq mindf 1 \<and> maxn = None then Inr (doc_term_matrix, term_to_id)
      else if num_val maxdf < 0 \<or> num_val mindf < 0 \<or> (case maxn of None \<Rightarrow> False | Some k \<Rightarrow> k < 0)
      then Inl NegativeFilterArg
      else
        (let n_docs = n_rows doc_term_matrix;
             n_terms = n_cols doc_term_matrix;
             max_doc_count = doc_count maxdf n_docs;
             min_doc_count = doc_count mindf n_docs
         in if max_doc_count < min_doc_count then Inl MaxDfLessThanMinDf
            else
              (case get_doc_freqs doc_term_matrix of
                 Inl e \<Rightarrow> Inl e
               | Inr dfs \<Rightarrow>
                   (let msk = df_mask n_docs n_terms dfs max_doc_count min_doc_count
                    in case (case maxn of
                               None \<Rightarrow> Inr msk
                             | Some k \<Rightarrow>
                                 if k < int (mask_sum msk)
                                 then (case get_term_freqs doc_term_matrix of
                                         Inl e \<Rightarrow> Inl e
                                       | Inr tfs \<Rightarrow> Inr (top_mask tfs msk (nat k) n_terms))
                                 else Inr msk) of
                         Inl e \<Rightarrow> Inl e
                       | Inr msk' \<Rightarrow>
                           (case renumber term_to_id msk' of
                              Inl e \<Rightarrow> Inl e
                            | Inr term_to_id' \<Rightarrow>
                                (let kept_indices = np_where msk'
                                 in if length kept_indices = 0 then Inl NoTermsRemainDf
                                    else Inr (col_slice doc_term_matrix kept_indices,
                                              term_to_id')))))))"

text \<open>\<^verbatim>\<open>filter_terms_by_ic\<close>\<close>

definition filter_terms_by_ic ::
  "int csr_matrix \<Rightarrow> vocab \<Rightarrow> real \<Rightarrow> int option \<Rightarrow> error + (int csr_matrix \<times> vocab)" where
  "filter_terms_by_ic doc_term_matrix term_to_id minic maxn =
     (if minic = 0 \<and> maxn = None then Inr (doc_term_matrix, term_to_id)
      else if minic < 0 \<or> 1 < minic then Inl MinIcOutOfRange
      else if (case maxn of None \<Rightarrow> False | Some k \<Rightarrow> k < 0) then Inl NegativeMaxNTerms
      else
        (let n_terms = n_cols doc_term_matrix
         in case get_information_content doc_term_matrix of
              Inl e \<Rightarrow> Inl e
            | Inr ics \<Rightarrow>
                (let msk0 = replicate n_terms True;
                     msk = (if 0 < minic then map2 (\<and>) msk0 (map (\<lambda>ic. minic \<le> ic) ics)
                            else msk0);
                     msk' = (case maxn of
                               None \<Rightarrow> msk
                             | Some k \<Rightarrow>
                                 if k < int (mask_sum msk) then top_mask ics msk (nat k) n_terms
                                 else msk)
                 in case renumber term_to_id msk' of
                      Inl e \<Rightarrow> Inl e
                    | Inr term_to_id' \<Rightarrow>
                        (let kept_indices = np_where msk'
                         in if length kept_indices = 0 then Inl NoTermsRemainIc
                            else Inr (col_slice doc_term_matrix kept_indices, term_to_id')))))"

text \<open>\<^verbatim>\<open>Vectorizer._filter_terms\<close>\<close>

definition filter_terms ::
  "vectorizer \<Rightarrow> int csr_matrix \<Rightarrow> vocab \<Rightarrow> error + (int csr_matrix \<times> vocab)" where
  "filter_terms self doc_term_matrix vocabulary =
     (if fixed_terms self then Inr (doc_term_matrix, vocabulary)
      else
        (case (if \<not> num_eq (max_df self) 1 \<or> \<not> num_eq (min_df self) 1 \<or> max_n_terms self \<noteq> None
               then filter_terms_by_df doc_term_matrix vocabulary
                      (max_df self) (min_df self) (max_n_terms self)
               else Inr (doc_term_matrix, vocabulary)) of
           Inl e \<Rightarrow> Inl e
         | Inr (m1, v1) \<Rightarrow>
             if min_ic self \<noteq> 0 then filter_terms_by_ic m1 v1 (min_ic self) (max_n_terms self)
             else Inr (m1, v1)))"

subsection \<open>Weighting\<close>

text \<open>
  \<^verbatim>\<open>m.dot(sp.diags(idfs, 0))\<close>: every stored value is multiplied by the factor of its
  column.
\<close>

definition dot_diags :: "real csr_matrix \<Rightarrow> real list \<Rightarrow> real csr_matrix" where
  "dot_diags m idfs = m\<lparr>data := map2 (\<lambda>v j. v * idfs ! j) (data m) (indices m)\<rparr>"

text \<open>
  The factors of \<^verbatim>\<open>apply_idf_weighting\<close>: \<^verbatim>\<open>np.log(n_docs / dfs) + 1.0\<close>, after one is
  added to \<^verbatim>\<open>n_docs\<close> and to every document frequency when \<^verbatim>\<open>smooth_idf\<close> is set. The
  factor of a column that no row stores (numpy: a division by zero) multiplies nothing.
\<close>

definition idf_factors :: "nat \<Rightarrow> nat list \<Rightarrow> bool \<Rightarrow> real list" where
  "idf_factors n_docs dfs smooth =
     (let n_docs' = (if smooth then n_docs + 1 else n_docs);
          dfs' = (if smooth then map (\<lambda>df. df + 1) dfs else dfs)
      in map (\<lambda>df. ln (real n_docs' / real df) + 1) dfs')"

text \<open>\<^verbatim>\<open>apply_idf_weighting\<close>\<close>

definition apply_idf_weighting :: "real csr_matrix \<Rightarrow> bool \<Rightarrow> error + real csr_matrix" where
  "apply_idf_weighting doc_term_matrix smooth =
     (case get_doc_freqs doc_term_matrix of
        Inl e \<Rightarrow> Inl e
      | Inr dfs \<Rightarrow>
          Inr (dot_diags doc_term_matrix (idf_factors (n_rows doc_term_matrix) dfs smooth)))"

text \<open>
  Modelled from the spec: sklearn's \<^verbatim>\<open>normalize(m, norm='l2', axis=1)\<close>, which is not
  part of the module. Every row is rescaled to unit Euclidean norm; a row whose values
  are all zero stays as it is.
\<close>

definition normalize_row :: "real list \<Rightarrow> real list" where
  "normalize_row vs =
     (let s = sum_list (map (\<lambda>v. v * v) vs)
      in if s = 0 then vs else map (\<lambda>v. v / sqrt s) vs)"

definition normalize_mat :: "real csr_matrix \<Rightarrow> real csr_matrix" where
  "normalize_mat m =
     m\<lparr>data := concat (map (\<lambda>i. normalize_row (slice (data m) (indptr m ! i) (indptr m ! Suc i)))
                         [0..<n_rows m])\<rparr>"

text \<open>
  \<^verbatim>\<open>Vectorizer._reweight_values\<close>. \<^verbatim>\<open>data.fill(1)\<close> overwrites every stored value;
  \<^verbatim>\<open>np.log(data, data)\<close> and \<^verbatim>\<open>data += 1\<close> replace a stored value \<open>v\<close> by \<open>ln v + 1\<close>.
  The result is read as a matrix of floats in every branch.
\<close>

definition fill_1 :: "int csr_matrix \<Rightarrow> real csr_matrix" where
  "fill_1 m = (astype_float m)\<lparr>data := map (\<lambda>v. 1) (data m)\<rparr>"

definition reweight_values :: "vectorizer \<Rightarrow> int csr_matrix \<Rightarrow> error + real csr_matrix" where
  "reweight_values self doc_term_matrix =
     (case (if weighting self = ''binary''
            then Inr (fill_1 doc_term_matrix)
            else
              (let m1 = (if sublinear_tf self
                         then (astype_float doc_term_matrix)
                                \<lparr>data := map (\<lambda>v. ln (real_of_int v) + 1) (data doc_term_matrix)\<rparr>
                         else astype_float doc_term_matrix)
               in if weighting self = ''tfidf'' then apply_idf_weighting m1 (smooth_idf self)
                  else Inr m1)) of
        Inl e \<Rightarrow> Inl e
      | Inr m2 \<Rightarrow> Inr (if normalize_flag self then normalize_mat m2 else m2))"

subsection \<open>Fitting and transforming\<close>

text \<open>
  \<^verbatim>\<open>Vectorizer.fit_transform\<close>: the result and the instance afterwards. Each of the
  two assignments to \<^verbatim>\<open>self.vocabulary_terms\<close> has happened when a later step raises.
\<close>

definition fit_transform ::
  "vectorizer \<Rightarrow> string list list \<Rightarrow> (error + real csr_matrix) \<times> vectorizer" where
  "fit_transform self tokenized_docs =
     (case count_terms self tokenized_docs (fixed_terms self) of
        Inl e \<Rightarrow> (Inl e, self)
      | Inr (m, v) \<Rightarrow>
          (let self1 = self\<lparr>vocabulary_terms := Some v\<rparr>
           in case filter_terms self1 m v of
                Inl e \<Rightarrow> (Inl e, self1)
              | Inr (m', v') \<Rightarrow>
                  (let self2 = self1\<lparr>vocabulary_terms := Some v'\<rparr>
                   in (reweight_values self2 m', self2))))"



subsection \<open>Auxiliary notions of the proofs\<close>




text \<open>The matrix before the idf factors and the step after them.\<close>

definition sublinear_scaled :: "vectorizer \<Rightarrow> int csr_matrix \<Rightarrow> real csr_matrix" where
  "sublinear_scaled self m =
     (if sublinear_tf self
      then (astype_float m)\<lparr>data := map (\<lambda>v. ln (real_of_int v) + 1) (data m)\<rparr>
      else astype_float m)"

definition normalized :: "vectorizer \<Rightarrow> real csr_matrix \<Rightarrow> real csr_matrix" where
  "normalized self m = (if normalize_flag self then normalize_mat m else m)"





section \<open>Properties\<close>

subsection \<open>Validation of a supplied vocabulary\<close>

lemma map_of_zip_upt_less:
  "map_of (zip ks [0..<n]) t = Some j \<Longrightarrow> j < n"
  by (auto dest!: map_of_SomeD set_zip_rightD)

lemma zip_snoc_upt:
  "length ks = i \<Longrightarrow> zip (ks @ [t]) [0..<Suc i] = zip ks [0..<i] @ [(t, i)]"
  by simp

lemma validate_terms_distinct:
  "distinct (ks @ ts) \<Longrightarrow>
   validate_terms (zip ks [0..<length ks]) (length ks) ts =
     Inr (zip (ks @ ts) [0..<length ks + length ts])"
proof (induction ts arbitrary: ks)
  case Nil
  then show ?case by simp
next
  case (Cons t ts)
  have notin: "t \<notin> set ks" using Cons.prems by auto
  then have none: "map_of (zip ks [0..<length ks]) t = None"
    by (simp add: map_of_zip_is_None)
  have d: "distinct ((ks @ [t]) @ ts)" using Cons.prems by auto
  have "validate_terms (zip ks [0..<length ks]) (length ks) (t # ts) =
        validate_terms (zip (ks @ [t]) [0..<length (ks @ [t])]) (length (ks @ [t])) ts"
    by (simp add: none)
  also have "\<dots> = Inr (zip ((ks @ [t]) @ ts) [0..<length (ks @ [t]) + length ts])"
    by (rule Cons.IH [OF d])
  finally show ?case by simp
qed

lemma validate_terms_duplicate:
  "distinct ks \<Longrightarrow> \<not> distinct (ks @ ts) \<Longrightarrow>
   \<exists>t. validate_terms (zip ks [0..<length ks]) (length ks) ts = Inl (DuplicateTerm t)"
proof (induction ts arbitrary: ks)
  case Nil
  then show ?case by simp
next
  case (Cons t ts)
  show ?case
  proof (cases "t \<in> set ks")
    case True
    then obtain j where j: "map_of (zip ks [0..<length ks]) t = Some j"
      by (cases "map_of (zip ks [0..<length ks]) t") (auto simp: map_of_zip_is_None)
    then have "j \<noteq> length ks" using map_of_zip_upt_less [OF j] by simp
    then show ?thesis using j by auto
  next
    case False
    then have none: "map_of (zip ks [0..<length ks]) t = None"
      by (simp add: map_of_zip_is_None)
    have d: "distinct (ks @ [t])" using False Cons.prems(1) by simp
    have nd: "\<not> distinct ((ks @ [t]) @ ts)" using Cons.prems(2) by auto
    have "validate_terms (zip ks [0..<length ks]) (length ks) (t # ts) =
          validate_terms (zip (ks @ [t]) [0..<length (ks @ [t])]) (length (ks @ [t])) ts"
      by (simp add: none)
    then show ?thesis using Cons.IH [OF d nd] by simp
  qed
qed

lemma validate_iterable_ok:
  assumes "distinct ts" "ts \<noteq> []"
  shows "validate_vocabulary (Some (VIterable ts)) =
           Inr (Some (zip (sort ts) [0..<length ts]), True)"
proof -
  have "validate_terms [] 0 (sort ts) = Inr (zip (sort ts) [0..<length ts])"
    using validate_terms_distinct [of "[]" "sort ts"] assms by simp
  moreover have "zip (sort ts) [0..<length ts] \<noteq> []"
    using assms by (cases "sort ts"; cases ts) (auto simp: upt_conv_Cons simp del: upt_Suc)
  ultimately show ?thesis by (simp add: validate_vocabulary_def)
qed

lemma validate_iterable_fails:
  assumes "\<not> distinct ts \<or> ts = []"
  shows "\<exists>e. validate_vocabulary (Some (VIterable ts)) = Inl e \<and> invalid_vocabulary e"
proof (cases "ts = []")
  case True
  then show ?thesis by (simp add: validate_vocabulary_def)
next
  case False
  with assms have "\<not> distinct (sort ts)" by simp
  then obtain t where "validate_terms [] 0 (sort ts) = Inl (DuplicateTerm t)"
    using validate_terms_duplicate [of "[]" "sort ts"] by auto
  then show ?thesis by (simp add: validate_vocabulary_def)
qed

lemma remdups_length_iff:
  "length (remdups (map f xs)) = length xs \<longleftrightarrow> distinct (map f xs)"
  by (metis distinct_remdups length_remdups_eq remdups_id_iff_distinct length_map)

lemma find_missing_None:
  "find (\<lambda>i. int i \<notin> set (remdups (map snd items))) [0..<length items] = None
     \<longleftrightarrow> int ` {0..<length items} \<subseteq> snd ` set items"
  by (auto simp: find_None_iff)

lemma validate_mapping_ok:
  assumes "distinct (map snd items)" "int ` {0..<length items} \<subseteq> snd ` set items" "items \<noteq> []"
  shows "validate_vocabulary (Some (VMapping items)) =
           Inr (Some (map (\<lambda>ti. (fst ti, nat (snd ti))) items), True)"
  using assms find_missing_None [of items]
  by (simp add: validate_vocabulary_def Let_def remdups_length_iff)

lemma validate_mapping_fails:
  assumes "\<not> (distinct (map snd items) \<and> int ` {0..<length items} \<subseteq> snd ` set items \<and> items \<noteq> [])"
  shows "\<exists>e. validate_vocabulary (Some (VMapping items)) = Inl e \<and> invalid_vocabulary e"
proof (cases "distinct (map snd items)")
  case False
  then show ?thesis by (simp add: validate_vocabulary_def Let_def remdups_length_iff)
next
  case True
  show ?thesis
  proof (cases "find (\<lambda>i. int i \<notin> set (remdups (map snd items))) [0..<length items]")
    case None
    then have "int ` {0..<length items} \<subseteq> snd ` set items"
      using find_missing_None by blast
    with assms True have "items = []" by simp
    then show ?thesis by (simp add: validate_vocabulary_def Let_def)
  next
    case (Some i)
    then show ?thesis using True
      by (simp add: validate_vocabulary_def Let_def remdups_length_iff)
  qed
qed

text \<open>
  Claim C6. \<^verbatim>\<open>_validate_vocabulary\<close> fails with one of its own errors exactly when a
  supplied mapping has an id twice, or lacks one of the ids \<open>0, ..., size - 1\<close>, or is
  empty, and exactly when a supplied iterable has a term twice or is empty. An iterable
  that passes becomes the sorted terms with the ids \<open>0, ..., n - 1\<close> in that order, a
  mapping that passes is returned with its ids, and the result is marked fixed if and
  only if a vocabulary was supplied.
\<close>

theorem validate_vocabulary_cases:
  "validate_vocabulary None = Inr (None, False) \<and>
   (if distinct ts \<and> ts \<noteq> []
    then validate_vocabulary (Some (VIterable ts)) =
           Inr (Some (zip (sort ts) [0..<length ts]), True)
    else \<exists>e. validate_vocabulary (Some (VIterable ts)) = Inl e \<and> invalid_vocabulary e) \<and>
   (if distinct (map snd items) \<and> int ` {0..<length items} \<subseteq> snd ` set items \<and> items \<noteq> []
    then validate_vocabulary (Some (VMapping items)) =
           Inr (Some (map (\<lambda>ti. (fst ti, nat (snd ti))) items), True)
    else \<exists>e. validate_vocabulary (Some (VMapping items)) = Inl e \<and> invalid_vocabulary e) \<and>
   (case validate_vocabulary input of Inl e \<Rightarrow> True | Inr (v, is_fixed) \<Rightarrow> is_fixed = (input \<noteq> None))"
proof -
  have 1: "validate_vocabulary None = Inr (None, False)"
    by (simp add: validate_vocabulary_def)
  have 2: "if distinct ts \<and> ts \<noteq> []
    then validate_vocabulary (Some (VIterable ts)) =
           Inr (Some (zip (sort ts) [0..<length ts]), True)
    else \<exists>e. validate_vocabulary (Some (VIterable ts)) = Inl e \<and> invalid_vocabulary e"
    using validate_iterable_ok [of ts] validate_iterable_fails [of ts] by auto
  have 3: "if distinct (map snd items) \<and> int ` {0..<length items} \<subseteq> snd ` set items \<and> items \<noteq> []
    then validate_vocabulary (Some (VMapping items)) =
           Inr (Some (map (\<lambda>ti. (fst ti, nat (snd ti))) items), True)
    else \<exists>e. validate_vocabulary (Some (VMapping items)) = Inl e \<and> invalid_vocabulary e"
    using validate_mapping_ok [of items] validate_mapping_fails [of items] by auto
  have 4: "case validate_vocabulary input of Inl e \<Rightarrow> True | Inr (v, is_fixed) \<Rightarrow> is_fixed = (input \<noteq> None)"
    by (auto simp: validate_vocabulary_def Let_def split: option.splits vocab_input.splits sum.splits if_splits)
  from 1 2 3 4 show ?thesis by blast
qed

subsection \<open>The inverse mapping is rebuilt at every read\<close>

lemma py_ne_int_dict: "py_ne (PyInt n) (case vt of None \<Rightarrow> PyNone | Some v \<Rightarrow> PyDict v)"
  by (cases vt) simp_all

text \<open>
  Claim C8. The claim has the cached inverse mapping reused until the size of the
  vocabulary changes. The test of \<^verbatim>\<open>id_to_term\<close>,
  \<^verbatim>\<open>len(self.id_to_term_) != self.vocabulary_terms\<close>, compares an int with a dict and
  holds always: whatever the cache holds, a read returns the inverse built from the
  current vocabulary and stores it. A cache of the size of the vocabulary, left from a
  vocabulary of another term, is not reused.
\<close>

theorem id_to_term_rebuilds_on_every_read:
  "id_to_term (self\<lparr>vocabulary_terms := Some v, id_to_term_cache := cache\<rparr>) =
     (Inr (invert v), self\<lparr>vocabulary_terms := Some v, id_to_term_cache := invert v\<rparr>) \<and>
   fst (id_to_term (self\<lparr>vocabulary_terms := Some [(''a'', 0)], id_to_term_cache := [(0, ''z'')]\<rparr>)) =
     Inr [(0, ''a'')]"
  by (simp add: id_to_term_def invert_def)

subsection \<open>A fixed vocabulary is never changed\<close>

lemma count_doc_fixed_vocabulary:
  "fst (count_doc True vocabulary term_counter ts) = vocabulary"
  by (induction ts arbitrary: term_counter)
     (auto simp: vocabulary_getitem_def split: option.splits prod.splits)

lemma count_docs_fixed_vocabulary:
  "fst (count_docs True vocabulary dat inds ptrs docs) = vocabulary"
proof (induction docs arbitrary: dat inds ptrs)
  case Nil
  then show ?case by simp
next
  case (Cons d docs)
  obtain c where c: "count_doc True vocabulary [] d = (vocabulary, c)"
    using count_doc_fixed_vocabulary [of vocabulary "[]" d]
    by (cases "count_doc True vocabulary [] d") auto
  show ?case using Cons.IH by (simp add: c)
qed

lemma count_terms_fixed_cases:
  "count_terms self docs True =
     (case vocabulary_terms self of
        None \<Rightarrow> Inl TypeError
      | Some v \<Rightarrow>
          Inr (sort_indices
                 \<lparr>data = fst (snd (count_docs True v [] [] [0] docs)),
                  indices = fst (snd (snd (count_docs True v [] [] [0] docs))),
                  indptr = snd (snd (snd (count_docs True v [] [] [0] docs))),
                  shape = (length (snd (snd (snd (count_docs True v [] [] [0] docs)))) - 1,
                           length v)\<rparr>, v))"
proof (cases "vocabulary_terms self")
  case None
  then show ?thesis by (simp add: count_terms_def)
next
  case (Some v)
  obtain v' dat inds ptrs where c: "count_docs True v [] [] [0] docs = (v', dat, inds, ptrs)"
    by (cases "count_docs True v [] [] [0] docs") auto
  have "v' = v" using count_docs_fixed_vocabulary [of v "[]" "[]" "[0]" docs] c by simp
  then show ?thesis using Some c by (simp add: count_terms_def)
qed

lemma count_terms_fixed_vocabulary:
  "count_terms self docs True = Inr (m, v) \<Longrightarrow> vocabulary_terms self = Some v"
  by (auto simp: count_terms_fixed_cases split: option.splits)

lemma fit_transform_fixed_self:
  assumes "fixed_terms self"
  shows "snd (fit_transform self docs) = self"
proof (cases "count_terms self docs True")
  case (Inl e)
  then show ?thesis using assms by (simp add: fit_transform_def)
next
  case (Inr mv)
  obtain m v where mv: "mv = (m, v)" by (cases mv)
  have v: "vocabulary_terms self = Some v"
    using Inr mv count_terms_fixed_vocabulary by blast
  have same: "self\<lparr>vocabulary_terms := Some v\<rparr> = self" using v by simp
  show ?thesis using assms Inr mv same
    by (simp add: fit_transform_def filter_terms_def Let_def)
qed

lemma init_supplied_fixed:
  "init w nrm sub smooth mindf maxdf minic maxn (Some input) = Inr self \<Longrightarrow>
   fixed_terms self \<and> (\<exists>v. vocabulary_terms self = Some v)"
  by (auto simp: init_def validate_vocabulary_def Let_def
      split: if_splits sum.splits vocab_input.splits option.splits)

text \<open>
  Claim C7. For a vectorizer constructed with a supplied vocabulary and every input,
  \<^verbatim>\<open>fit_transform\<close> leaves the instance, and so its vocabulary, as it was, whether it
  returns a matrix or raises: counting returns the vocabulary of the instance, and
  \<^verbatim>\<open>_filter_terms\<close> returns its arguments whatever the bounds are.
\<close>

theorem fixed_vocabulary_never_changes:
  assumes "init w nrm sub smooth mindf maxdf minic maxn (Some input) = Inr self"
  shows "snd (fit_transform self docs) = self \<and>
         (case count_terms self docs (fixed_terms self) of
            Inl e \<Rightarrow> False | Inr (m, v) \<Rightarrow> vocabulary_terms self = Some v) \<and>
         filter_terms self m' v' = Inr (m', v')"
proof -
  from init_supplied_fixed [OF assms] obtain v where
    f: "fixed_terms self" and v: "vocabulary_terms self = Some v" by blast
  have 1: "snd (fit_transform self docs) = self" by (rule fit_transform_fixed_self [OF f])
  obtain m r where r: "count_terms self docs True = Inr (m, r)"
    using v by (simp add: count_terms_fixed_cases)
  then have "vocabulary_terms self = Some r" by (rule count_terms_fixed_vocabulary)
  then have 2: "case count_terms self docs (fixed_terms self) of
            Inl e \<Rightarrow> False | Inr (m, v) \<Rightarrow> vocabulary_terms self = Some v"
    using f r by simp
  have 3: "filter_terms self m' v' = Inr (m', v')" using f by (simp add: filter_terms_def)
  from 1 2 3 show ?thesis by blast
qed

theorem fixed_vocabulary_never_changes_witness:
  "init ''tfidf'' True False True (IntV 2) (FloatV (1/2)) (1/2) (Some 1)
       (Some (VMapping [(''x'', 0), (''y'', 1)])) =
     Inr \<lparr>weighting = ''tfidf'', normalize_flag = True, sublinear_tf = False, smooth_idf = True,
          min_df = IntV 2, max_df = FloatV (1/2), min_ic = 1/2, max_n_terms = Some 1,
          vocabulary_terms = Some [(''x'', 0), (''y'', 1)], fixed_terms = True,
          id_to_term_cache = []\<rparr> \<and>
   snd (fit_transform
          \<lparr>weighting = ''tfidf'', normalize_flag = True, sublinear_tf = False, smooth_idf = True,
           min_df = IntV 2, max_df = FloatV (1/2), min_ic = 1/2, max_n_terms = Some 1,
           vocabulary_terms = Some [(''x'', 0), (''y'', 1)], fixed_terms = True,
           id_to_term_cache = []\<rparr> [[''x'', ''z''], [''w'']]) =
     \<lparr>weighting = ''tfidf'', normalize_flag = True, sublinear_tf = False, smooth_idf = True,
      min_df = IntV 2, max_df = FloatV (1/2), min_ic = 1/2, max_n_terms = Some 1,
      vocabulary_terms = Some [(''x'', 0), (''y'', 1)], fixed_terms = True,
      id_to_term_cache = []\<rparr>"
proof -
  have h: "init ''tfidf'' True False True (IntV 2) (FloatV (1/2)) (1/2) (Some 1)
       (Some (VMapping [(''x'', 0), (''y'', 1)])) =
     Inr \<lparr>weighting = ''tfidf'', normalize_flag = True, sublinear_tf = False, smooth_idf = True,
          min_df = IntV 2, max_df = FloatV (1/2), min_ic = 1/2, max_n_terms = Some 1,
          vocabulary_terms = Some [(''x'', 0), (''y'', 1)], fixed_terms = True,
          id_to_term_cache = []\<rparr>"
    by (simp add: init_def validate_vocabulary_def)
  from fixed_vocabulary_never_changes [OF h, of "[[''x'', ''z''], [''w'']]"] h
  show ?thesis by simp
qed

subsection \<open>A matrix without stored entries\<close>

text \<open>
  Claim C10. On a matrix with no stored entry the functions that compute document or
  term frequencies fail, and so do the operations built on them: the idf weighting,
  and each of the two filters once it is past its test for the arguments that ask for
  no filtering (only an earlier check of the arguments can fail before).
\<close>

theorem no_stored_entries_fail:
  fixes m :: "int csr_matrix"
  assumes "nnz m = 0"
  shows "get_doc_freqs m = Inl NoNonzeroEntries \<and>
         get_doc_freqs_normalized m = Inl NoNonzeroEntries \<and>
         get_term_freqs m = Inl NoNonzeroEntries \<and>
         get_term_freqs_normalized m = Inl NoNonzeroEntries \<and>
         get_information_content m = Inl NoNonzeroEntries \<and>
         apply_idf_weighting (astype_float m) smooth = Inl NoNonzeroEntries \<and>
         (weighting self = ''tfidf'' \<longrightarrow> reweight_values self m = Inl NoNonzeroEntries) \<and>
         (\<not> (num_eq maxdf 1 \<and> num_eq mindf 1 \<and> maxn = None) \<longrightarrow>
            filter_terms_by_df m v maxdf mindf maxn
              \<in> {Inl NegativeFilterArg, Inl MaxDfLessThanMinDf, Inl NoNonzeroEntries}) \<and>
         (\<not> (minic = 0 \<and> maxn = None) \<longrightarrow>
            filter_terms_by_ic m v minic maxn
              \<in> {Inl MinIcOutOfRange, Inl NegativeMaxNTerms, Inl NoNonzeroEntries})"
proof -
  have df: "get_doc_freqs m = Inl NoNonzeroEntries"
    using assms by (simp add: get_doc_freqs_def)
  have dfn: "get_doc_freqs_normalized m = Inl NoNonzeroEntries"
    using assms by (simp add: get_doc_freqs_normalized_def)
  have tf: "get_term_freqs m = Inl NoNonzeroEntries"
    using assms by (simp add: get_term_freqs_def)
  have tfn: "get_term_freqs_normalized m = Inl NoNonzeroEntries"
    using assms by (simp add: get_term_freqs_normalized_def)
  have ic: "get_information_content m = Inl NoNonzeroEntries"
    by (simp add: get_information_content_def dfn)
  have nz: "nnz (astype_float m) = 0" "nnz ((astype_float m)\<lparr>data := d\<rparr>) = 0" for d
    using assms by (simp_all add: nnz_def astype_float_def)
  have idf: "apply_idf_weighting (astype_float m) smooth = Inl NoNonzeroEntries"
    "apply_idf_weighting ((astype_float m)\<lparr>data := d\<rparr>) smooth = Inl NoNonzeroEntries" for d smooth
    using nz by (simp_all add: apply_idf_weighting_def get_doc_freqs_def)
  have rw: "weighting self = ''tfidf'' \<longrightarrow> reweight_values self m = Inl NoNonzeroEntries"
    by (simp add: reweight_values_def Let_def idf)
  have fdf: "\<not> (num_eq maxdf 1 \<and> num_eq mindf 1 \<and> maxn = None) \<longrightarrow>
            filter_terms_by_df m v maxdf mindf maxn
              \<in> {Inl NegativeFilterArg, Inl MaxDfLessThanMinDf, Inl NoNonzeroEntries}"
    by (simp add: filter_terms_by_df_def Let_def df)
  have fic: "\<not> (minic = 0 \<and> maxn = None) \<longrightarrow>
            filter_terms_by_ic m v minic maxn
              \<in> {Inl MinIcOutOfRange, Inl NegativeMaxNTerms, Inl NoNonzeroEntries}"
    by (simp add: filter_terms_by_ic_def Let_def ic)
  from df dfn tf tfn ic idf(1) rw fdf fic show ?thesis by blast
qed

theorem no_stored_entries_fail_witness:
  "nnz \<lparr>data = [], indices = [], indptr = [0, 0], shape = (1, 2)\<rparr> = 0 \<and>
   get_doc_freqs \<lparr>data = [] :: int list, indices = [], indptr = [0, 0], shape = (1, 2)\<rparr> =
     Inl NoNonzeroEntries \<and>
   get_term_freqs \<lparr>data = [], indices = [], indptr = [0, 0], shape = (1, 2)\<rparr> =
     Inl NoNonzeroEntries \<and>
   filter_terms_by_df \<lparr>data = [], indices = [], indptr = [0, 0], shape = (1, 2)\<rparr>
       [(''x'', 0), (''y'', 1)] (FloatV 1) (IntV 0) None = Inl NoNonzeroEntries \<and>
   filter_terms_by_ic \<lparr>data = [], indices = [], indptr = [0, 0], shape = (1, 2)\<rparr>
       [(''x'', 0), (''y'', 1)] (1/2) None = Inl NoNonzeroEntries"
proof -
  have z: "nnz \<lparr>data = [] :: int list, indices = [], indptr = [0, 0], shape = (1, 2)\<rparr> = 0"
    by (simp add: nnz_def)
  have a: "\<not> (num_eq (FloatV 1) 1 \<and> num_eq (IntV 0) 1 \<and> (None :: int option) = None)"
    by (simp add: num_eq_def)
  have b: "\<not> ((1/2 :: real) = 0 \<and> (None :: int option) = None)" by simp
  from no_stored_entries_fail [OF z, of True undefined "FloatV 1" "IntV 0" None
      "[(''x'', 0), (''y'', 1)]" "1/2"] z a b
  show ?thesis
    by (simp add: nnz_def filter_terms_by_df_def filter_terms_by_ic_def get_doc_freqs_def
        get_term_freqs_def get_information_content_def get_doc_freqs_normalized_def
        n_rows_def num_eq_def py_int_def)
qed

subsection \<open>Binary weighting\<close>

text \<open>
  Claim C2, as amended. With the weighting \<^verbatim>\<open>binary\<close> every stored value becomes 1, the
  rows and columns of the stored entries stay, and neither the sublinear scaling nor
  the idf factors are applied, whatever \<^verbatim>\<open>sublinear_tf\<close> and \<^verbatim>\<open>smooth_idf\<close> are; the
  rows are still normalized afterwards when \<^verbatim>\<open>normalize\<close> is set.
\<close>

theorem binary_weighting_then_normalize:
  assumes "weighting self = ''binary''"
  shows "reweight_values self m =
           Inr (if normalize_flag self then normalize_mat (fill_1 m) else fill_1 m) \<and>
         data (fill_1 m) = replicate (length (data m)) 1 \<and>
         indices (fill_1 m) = indices m \<and> indptr (fill_1 m) = indptr m \<and>
         shape (fill_1 m) = shape m \<and>
         reweight_values (self\<lparr>sublinear_tf := s, smooth_idf := t\<rparr>) m = reweight_values self m"
  using assms
  by (simp add: reweight_values_def fill_1_def astype_float_def map_replicate_const)

theorem binary_weighting_then_normalize_witness:
  "weighting \<lparr>weighting = ''binary'', normalize_flag = False, sublinear_tf = True,
      smooth_idf = True, min_df = IntV 1, max_df = FloatV 1, min_ic = 0, max_n_terms = None,
      vocabulary_terms = None, fixed_terms = False, id_to_term_cache = []\<rparr> = ''binary'' \<and>
   reweight_values
     \<lparr>weighting = ''binary'', normalize_flag = False, sublinear_tf = True, smooth_idf = True,
      min_df = IntV 1, max_df = FloatV 1, min_ic = 0, max_n_terms = None,
      vocabulary_terms = None, fixed_terms = False, id_to_term_cache = []\<rparr>
     \<lparr>data = [2, 1, 1, 1], indices = [0, 1, 1, 2], indptr = [0, 2, 4], shape = (2, 3)\<rparr>
   = Inr \<lparr>data = [1, 1, 1, 1], indices = [0, 1, 1, 2], indptr = [0, 2, 4], shape = (2, 3)\<rparr>"
proof -
  have h: "weighting \<lparr>weighting = ''binary'', normalize_flag = False, sublinear_tf = True,
      smooth_idf = True, min_df = IntV 1, max_df = FloatV 1, min_ic = 0, max_n_terms = None,
      vocabulary_terms = None, fixed_terms = False, id_to_term_cache = []\<rparr> = ''binary''"
    by simp
  from binary_weighting_then_normalize [OF h,
      of "\<lparr>data = [2, 1, 1, 1], indices = [0, 1, 1, 2], indptr = [0, 2, 4], shape = (2, 3)\<rparr>"]
  show ?thesis by (simp add: fill_1_def astype_float_def)
qed

text \<open>
  The claim as stated fails: with \<^verbatim>\<open>normalize\<close> set, a row of four stored values ends
  as four times 1/2, not as four times 1.
\<close>

theorem binary_weighting_counterexample:
  "reweight_values
     \<lparr>weighting = ''binary'', normalize_flag = True, sublinear_tf = False, smooth_idf = True,
      min_df = IntV 1, max_df = FloatV 1, min_ic = 0, max_n_terms = None,
      vocabulary_terms = None, fixed_terms = False, id_to_term_cache = []\<rparr>
     \<lparr>data = [3, 1, 2, 5], indices = [0, 1, 2, 3], indptr = [0, 4], shape = (1, 4)\<rparr>
   = Inr \<lparr>data = [1 / 2, 1 / 2, 1 / 2, 1 / 2], indices = [0, 1, 2, 3], indptr = [0, 4],
          shape = (1, 4)\<rparr>"
  by (simp add: reweight_values_def fill_1_def astype_float_def normalize_mat_def
      normalize_row_def slice_def n_rows_def)

subsection \<open>Rows of a matrix built from its rows\<close>








subsection \<open>Counters and the vocabulary while counting\<close>





































subsection \<open>What the weighting keeps\<close>



lemma nnz_astype_float [simp]:
  "nnz (astype_float m) = nnz m" "nnz ((astype_float m)\<lparr>data := d\<rparr>) = nnz m"
  by (simp_all add: nnz_def astype_float_def)

lemma get_doc_freqs_astype_float [simp]:
  "get_doc_freqs (astype_float m) = get_doc_freqs m"
  "get_doc_freqs ((astype_float m)\<lparr>data := d\<rparr>) = get_doc_freqs m"
  by (simp_all add: get_doc_freqs_def n_cols_def nnz_def astype_float_def)

lemma frame_sublinear_scaled [simp]:
  "indices (sublinear_scaled self m) = indices m"
  "indptr (sublinear_scaled self m) = indptr m"
  "shape (sublinear_scaled self m) = shape m"
  "nnz (sublinear_scaled self m) = nnz m"
  "get_doc_freqs (sublinear_scaled self m) = get_doc_freqs m"
  "n_rows (sublinear_scaled self m) = n_rows m"
  by (simp_all add: sublinear_scaled_def astype_float_def n_rows_def n_cols_def nnz_def
      get_doc_freqs_def)

lemma frame_normalized [simp]:
  "indices (normalized self m) = indices m"
  "indptr (normalized self m) = indptr m"
  "shape (normalized self m) = shape m"
  by (simp_all add: normalized_def normalize_mat_def)

lemma frame_dot_diags [simp]:
  "indices (dot_diags m idfs) = indices m"
  "indptr (dot_diags m idfs) = indptr m"
  "shape (dot_diags m idfs) = shape m"
  by (simp_all add: dot_diags_def)

lemma frame_fill_1 [simp]:
  "indices (fill_1 m) = indices m"
  "indptr (fill_1 m) = indptr m"
  "shape (fill_1 m) = shape m"
  by (simp_all add: fill_1_def astype_float_def)



subsection \<open>Counting with an open vocabulary\<close>

lemma filter_terms_defaults:
  assumes "\<not> fixed_terms self" "num_eq (max_df self) 1" "num_eq (min_df self) 1"
    "max_n_terms self = None" "min_ic self = 0"
  shows "filter_terms self m v = Inr (m, v)"
  using assms by (simp add: filter_terms_def)








subsection \<open>Transforming with a given vocabulary\<close>




subsection \<open>The idf factors of a transform\<close>
















subsection \<open>Masks and sorted positions\<close>














lemma fold_max_bounded: "\<forall>y\<in>set ys. y \<le> n \<Longrightarrow> fold max ys (n :: nat) = n"
  by (induction ys) (simp_all add: max_absorb2)


lemma length_bincount: "\<forall>x\<in>set xs. x < n \<Longrightarrow> length (bincount xs n) = n"
  by (simp add: bincount_def fold_max_bounded Suc_le_eq)







subsection \<open>Renumbering the vocabulary\<close>












subsection \<open>Slicing the columns\<close>











subsection \<open>Filtering by document frequency\<close>













lemma top_mask_scenario:
  "top_mask [2, 2, 1 :: int] [True, True, True] 2 3 = [True, True, False]"
  "top_mask [2, 2, 1 :: int] [True, True, True] 1 3 = [False, True, False]"
  by (simp_all add: top_mask_def mask_select_def argsort_def np_where_def upt_rec
      numeral_2_eq_2)









text \<open>
  The test for the default arguments compares by value: the count 1 as \<^verbatim>\<open>max_df\<close> and
  the fraction 1.0 as \<^verbatim>\<open>min_df\<close> pass it too, and nothing is filtered.
\<close>

lemma filter_terms_by_df_shortcut:
  "filter_terms_by_df m v (IntV 1) (IntV 1) None = Inr (m, v) \<and>
   filter_terms_by_df m v (FloatV 1) (FloatV 1) None = Inr (m, v)"
  by (simp add: filter_terms_by_df_def num_eq_def)




subsection \<open>The most frequent terms\<close>




end
